theory Spec2Isabelle
  imports Complex_Main
begin

section \<open>HeartGuard AI: the Streamlit script \<open>app.py\<close>\<close>

text \<open>
  The script is rerun from top to bottom on every interaction. One run reads the
  artifact file (through the cached \<open>load_model\<close>), the widget values, and emits
  page elements; it calls the unpickled classifier when the button was pressed.
  A run is modelled as a function from the process state (the resource cache), the
  state of the artifact file and the widget values to the trace of the run, the
  exception that ended it (if one escaped) and the new process state.

  The CSS block, the sidebar text and the progress animation carry no data; the
  first two are single elements of the trace, the animation (lines 183-190) is left out.
  A Python float is modelled by the real number it denotes. The one float operation of
  the script, the product at line 202, is rounded to the nearest double
  (\<open>double_round\<close>); NaN and the infinities are not modelled.
\<close>

subsection \<open>Values, exceptions, the classifier\<close>

datatype exn =
    FileNotFoundError
  | PermissionError
  | UnpicklingError
  | IndexError
  | ValueError
  | AttributeError
  | RuntimeError

text \<open>The elements of the feature row are Python ints (the select boxes and the slider)
  and a Python float (the number input).\<close>

datatype pynum = PyInt int | PyFloat real

text \<open>
  The unpickled object is opaque. The script uses its truth value (\<open>if model:\<close>),
  \<open>model.predict\<close> and \<open>model.predict_proba\<close>; either call may raise
  (a missing \<open>predict_proba\<close> attribute raises \<open>AttributeError\<close>).
  Labels are modelled as Python ints.
\<close>

record classifier =
  truthy :: bool
  predict :: "pynum list list \<Rightarrow> exn + int list"
  predict_proba :: "pynum list list \<Rightarrow> exn + real list list"

text \<open>What \<open>open('heart_disease_model.pkl', 'rb')\<close> and \<open>pickle.load\<close> find.\<close>

datatype artifact = Absent | Unreadable | Corrupt | Pickled classifier

subsection \<open>Page elements and the trace of a run\<close>

datatype element =
    Css
  | ErrorModelNotFound
  | Sidebar
  | MainHeader
  | SubHeader
  | InputForm
  | Rule
  | ResultCardDanger
  | ResultCardSafe
  | Balloons
  | Write string
  | InfoAwaitingModel

datatype event =
    Show element
  | CallPredict "pynum list list"
  | CallPredictProba "pynum list list"

record widgets =
  cp_display :: int
  thal_display :: int
  ca :: int
  thalach :: int
  oldpeak :: real
  button :: bool

text \<open>The ranges the widgets allow (lines 152-176).\<close>

definition valid_input :: "widgets \<Rightarrow> bool" where
  "valid_input w \<longleftrightarrow>
     cp_display w \<in> {0, 1, 2, 3} \<and> thal_display w \<in> {1, 2, 3} \<and> ca w \<in> {0, 1, 2, 3, 4} \<and>
     60 \<le> thalach w \<and> thalach w \<le> 220 \<and> 0 \<le> oldpeak w \<and> oldpeak w \<le> 10"

subsection \<open>Section 3 of the script: \<open>load_model\<close>\<close>

text \<open>
  The body of \<open>load_model\<close> (lines 106-113): only \<open>FileNotFoundError\<close> is caught.
  The result carries the elements the body emitted (\<open>st.error\<close>) and the return value.
\<close>

definition load_model :: "artifact \<Rightarrow> exn + (element list \<times> classifier option)" where
  "load_model fs =
     (case fs of
        Absent \<Rightarrow> Inr ([ErrorModelNotFound], None)
      | Unreadable \<Rightarrow> Inl PermissionError
      | Corrupt \<Rightarrow> Inl UnpicklingError
      | Pickled m \<Rightarrow> Inr ([], Some m))"

record process =
  cache :: "(element list \<times> classifier option) option"
  opens :: nat

definition fresh_process :: process where
  "fresh_process = \<lparr>cache = None, opens = 0\<rparr>"

text \<open>
  Modelled from the spec: the decorator \<open>st.cache_resource\<close> (line 105) belongs to
  Streamlit and is not under src/. "Result is memoized for the remainder of the process
  so repeated requests do not reload the file": a cached result is returned (with the
  elements the body emitted) without running the body; otherwise the body runs, opening
  the file once, and its result is stored. An exception of the body is not a result and
  nothing is stored for it.
\<close>

definition cached_load_model ::
  "process \<Rightarrow> artifact \<Rightarrow> (exn + (element list \<times> classifier option)) \<times> process" where
  "cached_load_model p fs =
     (case cache p of
        Some r \<Rightarrow> (Inr r, p)
      | None \<Rightarrow>
          (case load_model fs of
             Inl e \<Rightarrow> (Inl e, p\<lparr>opens := opens p + 1\<rparr>)
           | Inr r \<Rightarrow> (Inr r, p\<lparr>cache := Some r, opens := opens p + 1\<rparr>)))"

text \<open>The loader over the successive reruns of one process.\<close>

fun load_runs ::
  "process \<Rightarrow> artifact list \<Rightarrow> (exn + (element list \<times> classifier option)) list \<times> process" where
  "load_runs p [] = ([], p)"
| "load_runs p (fs # fss) =
     (let (r, p') = cached_load_model p fs;
          (rs, p'') = load_runs p' fss
      in (r # rs, p''))"

subsection \<open>Double-precision arithmetic\<close>

text \<open>Rounding to the nearest integer, ties to the even one.\<close>

definition round_half_even :: "real \<Rightarrow> int" where
  "round_half_even x =
     (let f = \<lfloor>x\<rfloor>; r = x - of_int f
      in if r < 1 / 2 then f else if 1 / 2 < r then f + 1 else if even f then f else f + 1)"

text \<open>
  The binary exponent of a positive real, kept within the range of the normal doubles
  (from -1022 to 1023): the search climbs from exponent 0 for \<open>x \<ge> 1\<close> and descends
  otherwise. For the subnormal doubles the exponent stays -1022.
\<close>

function exp_up :: "real \<Rightarrow> int \<Rightarrow> int" where
  "exp_up x e = (if e < 1023 \<and> 2 powi (e + 1) \<le> x then exp_up x (e + 1) else e)"
  by pat_completeness auto
termination
  by (relation "measure (\<lambda>(x, e). nat (1023 - e))") auto

function exp_down :: "real \<Rightarrow> int \<Rightarrow> int" where
  "exp_down x e = (if - 1022 < e \<and> x < 2 powi e then exp_down x (e - 1) else e)"
  by pat_completeness auto
termination
  by (relation "measure (\<lambda>(x, e). nat (e + 1022))") auto

declare exp_up.simps [simp del] exp_down.simps [simp del]

definition double_exponent :: "real \<Rightarrow> int" where
  "double_exponent x = (if 1 \<le> x then exp_up x 0 else exp_down x 0)"

text \<open>
  IEEE 754 binary64, round to nearest, ties to even: a double with exponent \<open>e\<close> is a
  multiple of \<open>2 powi (e - 52)\<close>, and the real is rounded to the nearest such multiple.
  A result beyond the largest double (\<open>inf\<close> in the program) is not modelled.
\<close>

definition double_round :: "real \<Rightarrow> real" where
  "double_round x =
     (let q = 2 powi (double_exponent \<bar>x\<bar> - 52)
      in of_int (round_half_even (x / q)) * q)"

text \<open>The product of two doubles, as \<open>*\<close> on \<open>numpy.float64\<close> computes it.\<close>

definition float_mul :: "real \<Rightarrow> real \<Rightarrow> real" where
  "float_mul a b = double_round (a * b)"

subsection \<open>Section 5 of the script: the prediction\<close>

text \<open>Line 193: the feature row, wrapped in a one-row batch.\<close>

definition input_data :: "widgets \<Rightarrow> pynum list list" where
  "input_data w =
     [[PyInt (cp_display w), PyInt (thal_display w), PyInt (ca w), PyInt (thalach w),
       PyFloat (oldpeak w)]]"

text \<open>Lines 196-197: \<open>model.predict(input_data)[0]\<close>; an empty prediction raises.\<close>

definition classify :: "classifier \<Rightarrow> pynum list list \<Rightarrow> exn + int" where
  "classify m x =
     (case predict m x of
        Inl e \<Rightarrow> Inl e
      | Inr prediction \<Rightarrow> (case prediction of [] \<Rightarrow> Inl IndexError | result # _ \<Rightarrow> Inr result))"

text \<open>\<open>np.max\<close> of a two-dimensional array: the maximum of all entries; none raises.\<close>

definition np_max :: "real list list \<Rightarrow> exn + real" where
  "np_max proba =
     (case concat proba of [] \<Rightarrow> Inl ValueError | x # xs \<Rightarrow> Inr (fold max xs x))"

text \<open>Lines 200-204: \<open>np.max(proba) * 100\<close> in double precision; the bare \<open>except\<close>
  turns every failure into \<open>confidence = 0\<close>.\<close>

definition confidence :: "classifier \<Rightarrow> pynum list list \<Rightarrow> real" where
  "confidence m x =
     (case predict_proba m x of
        Inl e \<Rightarrow> 0
      | Inr proba \<Rightarrow> (case np_max proba of Inl e \<Rightarrow> 0 | Inr mx \<Rightarrow> float_mul mx 100))"

subsection \<open>The format \<open>{confidence:.2f}\<close>\<close>

definition digit_char :: "nat \<Rightarrow> char" where
  "digit_char d = ''0123456789'' ! d"

fun str_nat :: "nat \<Rightarrow> string" where
  "str_nat n = (if n < 10 then [digit_char n] else str_nat (n div 10) @ [digit_char (n mod 10)])"

declare str_nat.simps [simp del]

definition format_2f :: "real \<Rightarrow> string" where
  "format_2f x =
     (let n = nat (round_half_even (\<bar>x\<bar> * 100))
      in (if x < 0 then ''-'' else '''') @ str_nat (n div 100) @ ''.'' @
         [digit_char (n mod 100 div 10), digit_char (n mod 10)])"

definition confidence_line :: "real \<Rightarrow> element" where
  "confidence_line c = Write (''**Model Confidence:** '' @ format_2f c @ ''%'')"

subsection \<open>Lines 206-233: the result templates\<close>

definition render_result :: "int \<Rightarrow> real \<Rightarrow> element list" where
  "render_result result c =
     (if result = 1
      then [ResultCardDanger] @ (if 0 < c then [confidence_line c] else [])
      else [ResultCardSafe, Balloons] @ (if 0 < c then [confidence_line c] else []))"

text \<open>Lines 181-233: what the button triggers. An exception of \<open>predict\<close> or of
  \<open>prediction[0]\<close> is not caught and ends the run.\<close>

definition prediction_section :: "classifier \<Rightarrow> widgets \<Rightarrow> event list \<times> exn option" where
  "prediction_section m w =
     (let x = input_data w
      in case classify m x of
           Inl e \<Rightarrow> ([CallPredict x], Some e)
         | Inr result \<Rightarrow>
             ([CallPredict x, CallPredictProba x, Show Rule] @
              map Show (render_result result (confidence m x)), None))"

text \<open>Lines 143-236: \<open>if model:\<close> tests the truth value of the loader's result.\<close>

definition main_interface :: "classifier option \<Rightarrow> widgets \<Rightarrow> event list \<times> exn option" where
  "main_interface model w =
     (case model of
        None \<Rightarrow> ([Show InfoAwaitingModel], None)
      | Some m \<Rightarrow>
          if truthy m
          then (if button w
                then (let (evs, ex) = prediction_section m w in (Show InputForm # evs, ex))
                else ([Show InputForm], None))
          else ([Show InfoAwaitingModel], None))"

text \<open>One run of the whole script.\<close>

definition script ::
  "process \<Rightarrow> artifact \<Rightarrow> widgets \<Rightarrow> (event list \<times> exn option) \<times> process" where
  "script p fs w =
     (case cached_load_model p fs of
        (Inl e, p') \<Rightarrow> (([Show Css], Some e), p')
      | (Inr (els, model), p') \<Rightarrow>
          (let (evs, ex) = main_interface model w
           in ((Show Css # map Show els @ [Show Sidebar, Show MainHeader, Show SubHeader] @ evs,
                ex), p')))"

text \<open>The classifier calls of a trace, and the result cards of a trace.\<close>

fun is_call :: "event \<Rightarrow> bool" where
  "is_call (CallPredict x) = True"
| "is_call (CallPredictProba x) = True"
| "is_call (Show e) = False"

fun is_result_card :: "event \<Rightarrow> bool" where
  "is_result_card (Show ResultCardDanger) = True"
| "is_result_card (Show ResultCardSafe) = True"
| "is_result_card e = False"


fun is_balloons :: "event \<Rightarrow> bool" where
  "is_balloons (Show Balloons) = True"
| "is_balloons e = False"

subsection \<open>The scenarios of the specification, and a classifier with a third label\<close>

definition scenario_A_widgets :: widgets where
  "scenario_A_widgets =
     \<lparr>cp_display = 0, thal_display = 2, ca = 0, thalach = 150, oldpeak = 1.0, button = True\<rparr>"

definition scenario_A_classifier :: classifier where
  "scenario_A_classifier =
     \<lparr>truthy = True, predict = (\<lambda>x. Inr [0]), predict_proba = (\<lambda>x. Inr [[0.875, 0.125]])\<rparr>"

definition scenario_B_widgets :: widgets where
  "scenario_B_widgets =
     \<lparr>cp_display = 3, thal_display = 1, ca = 3, thalach = 90, oldpeak = 4.2, button = True\<rparr>"

definition scenario_B_classifier :: classifier where
  "scenario_B_classifier =
     \<lparr>truthy = True, predict = (\<lambda>x. Inr [1]), predict_proba = (\<lambda>x. Inl AttributeError)\<rparr>"

definition label_two_classifier :: classifier where
  "label_two_classifier =
     \<lparr>truthy = True, predict = (\<lambda>x. Inr [2]), predict_proba = (\<lambda>x. Inr [[0.25, 0.75]])\<rparr>"


section \<open>Properties\<close>

subsection \<open>Traces of the result templates, the maximum, rounding, the cache\<close>

lemma filter_call_Show: "filter is_call (map Show els) = []"
  by (induction els) simp_all

lemma filter_card_render:
  "filter is_result_card (map Show (render_result l c)) =
     (if l = 1 then [Show ResultCardDanger] else [Show ResultCardSafe])"
  by (simp add: render_result_def confidence_line_def)










lemma prediction_section_Inr:
  "classify m (input_data w) = Inr l \<Longrightarrow>
   prediction_section m w =
     ([CallPredict (input_data w), CallPredictProba (input_data w), Show Rule] @
      map Show (render_result l (confidence m (input_data w))), None)"
  by (simp add: prediction_section_def Let_def)

lemma load_runs_cached:
  "cache p = Some r \<Longrightarrow> load_runs p fss = (replicate (length fss) (Inr r), p)"
  by (induction fss) (simp_all add: cached_load_model_def)

subsection \<open>The feature row\<close>

text \<open>
  C4: for every input within the widget ranges the feature batch holds one row of exactly
  five elements, in the order chest-pain type, thalassemia type, major-vessel count,
  maximum heart rate, ST depression, each the raw widget value; and this row is what
  \<open>predict\<close> is called on.
\<close>

theorem input_data_fixed_order:
  assumes "valid_input w"
  shows "\<exists>row. input_data w = [row] \<and> length row = 5 \<and>
           row ! 0 = PyInt (cp_display w) \<and> row ! 1 = PyInt (thal_display w) \<and>
           row ! 2 = PyInt (ca w) \<and> row ! 3 = PyInt (thalach w) \<and>
           row ! 4 = PyFloat (oldpeak w) \<and>
           hd (fst (prediction_section m w)) = CallPredict [row]"
  by (simp add: input_data_def prediction_section_def Let_def split: sum.split)

theorem input_data_fixed_order_witness:
  "valid_input scenario_A_widgets \<and>
   (\<exists>row. input_data scenario_A_widgets = [row] \<and> length row = 5 \<and>
      row ! 0 = PyInt 0 \<and> row ! 1 = PyInt 2 \<and> row ! 2 = PyInt 0 \<and> row ! 3 = PyInt 150 \<and>
      row ! 4 = PyFloat 1 \<and>
      hd (fst (prediction_section scenario_A_classifier scenario_A_widgets)) = CallPredict [row])"
proof -
  have v: "valid_input scenario_A_widgets"
    by (simp add: valid_input_def scenario_A_widgets_def)
  from input_data_fixed_order [OF v, of scenario_A_classifier] v show ?thesis
    by (simp add: scenario_A_widgets_def)
qed

subsection \<open>The loader and the waiting state\<close>

text \<open>
  C2 as stated fails for a corrupt artifact: \<open>pickle.load\<close> raises, the only
  handler is for \<open>FileNotFoundError\<close>, and the exception ends the run.
\<close>

theorem corrupt_artifact_counterexample:
  "load_model Corrupt = Inl UnpicklingError \<and>
   fst (script fresh_process Corrupt scenario_A_widgets) = ([Show Css], Some UnpicklingError)"
  by (simp add: load_model_def script_def cached_load_model_def fresh_process_def)

text \<open>
  C2, amended: when the artifact file is missing, the loader returns \<open>None\<close> after
  its notice, no exception leaves the run, the result is cached, and the run shows only
  the page chrome, the notice and "Awaiting model file...".
\<close>

theorem missing_artifact_unavailable:
  assumes "cache p = None"
  shows "load_model Absent = Inr ([ErrorModelNotFound], None) \<and>
         script p Absent w =
           (([Show Css, Show ErrorModelNotFound, Show Sidebar, Show MainHeader, Show SubHeader,
              Show InfoAwaitingModel], None),
            p\<lparr>cache := Some ([ErrorModelNotFound], None), opens := opens p + 1\<rparr>)"
  using assms
  by (simp add: load_model_def script_def cached_load_model_def main_interface_def)

theorem missing_artifact_unavailable_witness:
  "cache fresh_process = None \<and>
   script fresh_process Absent scenario_A_widgets =
     (([Show Css, Show ErrorModelNotFound, Show Sidebar, Show MainHeader, Show SubHeader,
        Show InfoAwaitingModel], None),
      \<lparr>cache = Some ([ErrorModelNotFound], None), opens = 1\<rparr>)"
proof -
  have h: "cache fresh_process = None" by (simp add: fresh_process_def)
  from missing_artifact_unavailable [OF h, of scenario_A_widgets] h show ?thesis
    by (simp add: fresh_process_def)
qed

text \<open>
  C5: whenever the (cached) loader returns \<open>None\<close>, the run shows the page chrome,
  the loader's notice and "Awaiting model file..." and nothing else, whatever the widget
  values; its trace holds no call of \<open>predict\<close> or \<open>predict_proba\<close>.
\<close>

theorem unavailable_suppresses_prediction:
  assumes "fst (cached_load_model p fs) = Inr (els, None)"
  shows "fst (script p fs w) =
           (Show Css # map Show els @
            [Show Sidebar, Show MainHeader, Show SubHeader, Show InfoAwaitingModel], None) \<and>
         filter is_call (fst (fst (script p fs w))) = []"
proof -
  obtain p' where c: "cached_load_model p fs = (Inr (els, None), p')"
    using assms by (cases "cached_load_model p fs") simp
  have s: "fst (script p fs w) =
           (Show Css # map Show els @
            [Show Sidebar, Show MainHeader, Show SubHeader, Show InfoAwaitingModel], None)"
    by (simp add: script_def c main_interface_def)
  show ?thesis
    unfolding s by (simp add: filter_call_Show)
qed

theorem unavailable_suppresses_prediction_witness:
  "fst (cached_load_model fresh_process Absent) = Inr ([ErrorModelNotFound], None) \<and>
   fst (script fresh_process Absent scenario_B_widgets) =
     ([Show Css, Show ErrorModelNotFound, Show Sidebar, Show MainHeader, Show SubHeader,
       Show InfoAwaitingModel], None) \<and>
   filter is_call (fst (fst (script fresh_process Absent scenario_B_widgets))) = []"
proof -
  have h: "fst (cached_load_model fresh_process Absent) = Inr ([ErrorModelNotFound], None)"
    by (simp add: cached_load_model_def fresh_process_def load_model_def)
  from unavailable_suppresses_prediction [OF h, of scenario_B_widgets] h show ?thesis
    by simp
qed

text \<open>
  C9: once the body of \<open>load_model\<close> has returned (a classifier or \<open>None\<close>), the
  result is stored; every later run of the process gets that result, whatever the file
  has become meanwhile, and the file is opened once in all.
\<close>

theorem load_model_memoized:
  assumes "cache p = None" and "load_model fs = Inr r"
  shows "load_runs p (fs # fss) =
           (replicate (Suc (length fss)) (Inr r), p\<lparr>cache := Some r, opens := opens p + 1\<rparr>)"
proof -
  let ?p = "p\<lparr>cache := Some r, opens := Suc (opens p)\<rparr>"
  have first: "cached_load_model p fs = (Inr r, ?p)"
    using assms by (simp add: cached_load_model_def)
  have "cache ?p = Some r" by simp
  then have rest: "load_runs ?p fss = (replicate (length fss) (Inr r), ?p)"
    by (rule load_runs_cached)
  show ?thesis
    by (simp add: first rest)
qed

theorem load_model_memoized_witness:
  "cache fresh_process = None \<and> load_model Absent = Inr ([ErrorModelNotFound], None) \<and>
   load_runs fresh_process [Absent, Pickled scenario_A_classifier, Corrupt, Absent] =
     ([Inr ([ErrorModelNotFound], None), Inr ([ErrorModelNotFound], None),
       Inr ([ErrorModelNotFound], None), Inr ([ErrorModelNotFound], None)],
      \<lparr>cache = Some ([ErrorModelNotFound], None), opens = 1\<rparr>)"
proof -
  have h1: "cache fresh_process = None" by (simp add: fresh_process_def)
  have h2: "load_model Absent = Inr ([ErrorModelNotFound], None)" by (simp add: load_model_def)
  from load_model_memoized [OF h1 h2, of "[Pickled scenario_A_classifier, Corrupt, Absent]"] h1 h2
  show ?thesis by (simp add: fresh_process_def)
qed

subsection \<open>The confidence\<close>

text \<open>
  C3: when \<open>predict\<close> gives a label and \<open>predict_proba\<close> raises (or is missing),
  the confidence is 0, no exception leaves the run, no confidence line is shown, and the
  card of the label is rendered as it would be otherwise.
\<close>

theorem proba_failure_absorbed:
  assumes "truthy m" and "button w"
    and "classify m (input_data w) = Inr l"
    and "predict_proba m (input_data w) = Inl e"
  shows "confidence m (input_data w) = 0 \<and>
         main_interface (Some m) w =
           ([Show InputForm, CallPredict (input_data w), CallPredictProba (input_data w),
             Show Rule] @
            (if l = 1 then [Show ResultCardDanger] else [Show ResultCardSafe, Show Balloons]),
            None)"
  using assms
  by (simp add: main_interface_def prediction_section_def Let_def confidence_def
      render_result_def)

theorem proba_failure_absorbed_witness:
  "truthy scenario_B_classifier \<and> button scenario_B_widgets \<and>
   classify scenario_B_classifier (input_data scenario_B_widgets) = Inr 1 \<and>
   predict_proba scenario_B_classifier (input_data scenario_B_widgets) = Inl AttributeError \<and>
   main_interface (Some scenario_B_classifier) scenario_B_widgets =
     ([Show InputForm,
       CallPredict [[PyInt 3, PyInt 1, PyInt 3, PyInt 90, PyFloat 4.2]],
       CallPredictProba [[PyInt 3, PyInt 1, PyInt 3, PyInt 90, PyFloat 4.2]],
       Show Rule, Show ResultCardDanger], None)"
proof -
  have h1: "truthy scenario_B_classifier" by (simp add: scenario_B_classifier_def)
  have h2: "button scenario_B_widgets" by (simp add: scenario_B_widgets_def)
  have h3: "classify scenario_B_classifier (input_data scenario_B_widgets) = Inr 1"
    by (simp add: classify_def scenario_B_classifier_def)
  have h4: "predict_proba scenario_B_classifier (input_data scenario_B_widgets) = Inl AttributeError"
    by (simp add: scenario_B_classifier_def)
  from proba_failure_absorbed [OF h1 h2 h3 h4] h1 h2 h3 h4 show ?thesis
    by (simp add: input_data_def scenario_B_widgets_def)
qed




text \<open>
  C6 (scenario A): with the inputs cp = 0, thal = 2, ca = 0, thalach = 150, oldpeak = 1.0
  and a classifier giving label 0 and confidence 87.5, a first run renders the low-risk
  card, the balloons and the line "**Model Confidence:** 87.50%".
\<close>

theorem scenario_A_rendering:
  assumes "truthy m"
    and "classify m (input_data scenario_A_widgets) = Inr 0"
    and "confidence m (input_data scenario_A_widgets) = 87.5"
  shows "fst (script fresh_process (Pickled m) scenario_A_widgets) =
           ([Show Css, Show Sidebar, Show MainHeader, Show SubHeader, Show InputForm,
             CallPredict [[PyInt 0, PyInt 2, PyInt 0, PyInt 150, PyFloat 1.0]],
             CallPredictProba [[PyInt 0, PyInt 2, PyInt 0, PyInt 150, PyFloat 1.0]],
             Show Rule, Show ResultCardSafe, Show Balloons,
             Show (Write ''**Model Confidence:** 87.50%'')], None)"
proof -
  have f: "format_2f 87.5 = ''87.50''"
    by (simp add: format_2f_def round_half_even_def str_nat.simps digit_char_def)
  have b: "button scenario_A_widgets" by (simp add: scenario_A_widgets_def)
  have x: "input_data scenario_A_widgets = [[PyInt 0, PyInt 2, PyInt 0, PyInt 150, PyFloat 1.0]]"
    by (simp add: input_data_def scenario_A_widgets_def)
  have r: "render_result 0 87.5 =
      [ResultCardSafe, Balloons, Write ''**Model Confidence:** 87.50%'']"
    unfolding render_result_def confidence_line_def f by simp
  have p: "prediction_section m scenario_A_widgets =
      ([CallPredict (input_data scenario_A_widgets),
        CallPredictProba (input_data scenario_A_widgets), Show Rule,
        Show ResultCardSafe, Show Balloons, Show (Write ''**Model Confidence:** 87.50%'')],
       None)"
    unfolding prediction_section_Inr [OF assms(2)] assms(3) r by simp
  have i: "main_interface (Some m) scenario_A_widgets =
      ([Show InputForm, CallPredict (input_data scenario_A_widgets),
        CallPredictProba (input_data scenario_A_widgets), Show Rule,
        Show ResultCardSafe, Show Balloons, Show (Write ''**Model Confidence:** 87.50%'')],
       None)"
    using assms(1) b by (simp add: main_interface_def p)
  show ?thesis
    by (simp add: script_def cached_load_model_def fresh_process_def load_model_def i x)
qed

theorem scenario_A_rendering_witness:
  "truthy scenario_A_classifier \<and>
   classify scenario_A_classifier (input_data scenario_A_widgets) = Inr 0 \<and>
   confidence scenario_A_classifier (input_data scenario_A_widgets) = 87.5 \<and>
   fst (script fresh_process (Pickled scenario_A_classifier) scenario_A_widgets) =
     ([Show Css, Show Sidebar, Show MainHeader, Show SubHeader, Show InputForm,
       CallPredict [[PyInt 0, PyInt 2, PyInt 0, PyInt 150, PyFloat 1.0]],
       CallPredictProba [[PyInt 0, PyInt 2, PyInt 0, PyInt 150, PyFloat 1.0]],
       Show Rule, Show ResultCardSafe, Show Balloons,
       Show (Write ''**Model Confidence:** 87.50%'')], None)"
proof -
  have h1: "truthy scenario_A_classifier" by (simp add: scenario_A_classifier_def)
  have h2: "classify scenario_A_classifier (input_data scenario_A_widgets) = Inr 0"
    by (simp add: classify_def scenario_A_classifier_def)
  have h3: "confidence scenario_A_classifier (input_data scenario_A_widgets) = 87.5"
    by (simp add: confidence_def np_max_def scenario_A_classifier_def float_mul_def
        double_round_def double_exponent_def exp_up.simps round_half_even_def)
  from scenario_A_rendering [OF h1 h2 h3] h1 h2 h3 show ?thesis by simp
qed

subsection \<open>The label and the result templates\<close>

text \<open>
  C10: the label 1 renders the high-risk card and no balloons; every other label (0
  or anything else) renders the low-risk card followed by the balloons.
\<close>

theorem only_label_one_is_high_risk:
  assumes "classify m (input_data w) = Inr l"
  shows "filter (\<lambda>e. is_result_card e \<or> is_balloons e) (fst (prediction_section m w)) =
           (if l = 1 then [Show ResultCardDanger] else [Show ResultCardSafe, Show Balloons])"
  using assms
  by (simp add: prediction_section_def Let_def render_result_def confidence_line_def)

theorem only_label_one_is_high_risk_witness:
  "classify label_two_classifier (input_data scenario_A_widgets) = Inr 2 \<and>
   filter (\<lambda>e. is_result_card e \<or> is_balloons e)
     (fst (prediction_section label_two_classifier scenario_A_widgets)) =
     [Show ResultCardSafe, Show Balloons] \<and>
   classify scenario_B_classifier (input_data scenario_B_widgets) = Inr 1 \<and>
   filter (\<lambda>e. is_result_card e \<or> is_balloons e)
     (fst (prediction_section scenario_B_classifier scenario_B_widgets)) =
     [Show ResultCardDanger]"
proof -
  have h1: "classify label_two_classifier (input_data scenario_A_widgets) = Inr 2"
    by (simp add: classify_def label_two_classifier_def)
  have h2: "classify scenario_B_classifier (input_data scenario_B_widgets) = Inr 1"
    by (simp add: classify_def scenario_B_classifier_def)
  from only_label_one_is_high_risk [OF h1] only_label_one_is_high_risk [OF h2] h1 h2
  show ?thesis by simp
qed

text \<open>
  C1 as stated (a label outside \<open>{0, 1}\<close> is reported as a violation and neither
  template is rendered) fails: with a classifier returning the label 2 the run ends
  without an exception and shows the low-risk card, balloons and confidence line.
\<close>

theorem unexpected_label_counterexample:
  "classify label_two_classifier (input_data scenario_B_widgets) = Inr 2 \<and>
   fst (script fresh_process (Pickled label_two_classifier) scenario_B_widgets) =
     ([Show Css, Show Sidebar, Show MainHeader, Show SubHeader, Show InputForm,
       CallPredict [[PyInt 3, PyInt 1, PyInt 3, PyInt 90, PyFloat 4.2]],
       CallPredictProba [[PyInt 3, PyInt 1, PyInt 3, PyInt 90, PyFloat 4.2]],
       Show Rule, Show ResultCardSafe, Show Balloons,
       Show (Write ''**Model Confidence:** 75.00%'')], None)"
  by (simp add: classify_def label_two_classifier_def script_def cached_load_model_def
      fresh_process_def load_model_def main_interface_def prediction_section_def Let_def
      scenario_B_widgets_def input_data_def confidence_def np_max_def render_result_def
      float_mul_def double_round_def double_exponent_def exp_up.simps
      confidence_line_def format_2f_def round_half_even_def str_nat.simps digit_char_def)

text \<open>
  C1, amended: on a first run with a loaded classifier and the button pressed, a label
  other than 0 and 1 raises nothing, and the one result card shown is the low-risk card.
\<close>

theorem unexpected_label_renders_low_risk:
  assumes "cache p = None" and "truthy m" and "button w"
    and "classify m (input_data w) = Inr l" and "l \<noteq> 0" and "l \<noteq> 1"
  shows "snd (fst (script p (Pickled m) w)) = None \<and>
         filter is_result_card (fst (fst (script p (Pickled m) w))) = [Show ResultCardSafe]"
  using assms
  by (simp add: script_def cached_load_model_def load_model_def main_interface_def
      prediction_section_def Let_def filter_card_render)

theorem unexpected_label_renders_low_risk_witness:
  "cache fresh_process = None \<and> truthy label_two_classifier \<and> button scenario_A_widgets \<and>
   classify label_two_classifier (input_data scenario_A_widgets) = Inr 2 \<and>
   snd (fst (script fresh_process (Pickled label_two_classifier) scenario_A_widgets)) = None \<and>
   filter is_result_card
     (fst (fst (script fresh_process (Pickled label_two_classifier) scenario_A_widgets))) =
   [Show ResultCardSafe]"
proof -
  have h1: "cache fresh_process = None" by (simp add: fresh_process_def)
  have h2: "truthy label_two_classifier" by (simp add: label_two_classifier_def)
  have h3: "button scenario_A_widgets" by (simp add: scenario_A_widgets_def)
  have h4: "classify label_two_classifier (input_data scenario_A_widgets) = Inr 2"
    by (simp add: classify_def label_two_classifier_def)
  have h5: "(2::int) \<noteq> 0" and h6: "(2::int) \<noteq> 1" by simp_all
  from unexpected_label_renders_low_risk [OF h1 h2 h3 h4 h5 h6] h1 h2 h3 h4
  show ?thesis by simp
qed

text \<open>
  C8 as stated (every label lies in \<open>{0, 1}\<close>) fails: the label is the first element
  of whatever \<open>predict\<close> returns, and nothing confines it.
\<close>

theorem label_range_counterexample:
  "predict label_two_classifier (input_data scenario_A_widgets) = Inr [2] \<and>
   classify label_two_classifier (input_data scenario_A_widgets) = Inr 2 \<and>
   (2::int) \<notin> {0, 1}"
  by (simp add: classify_def label_two_classifier_def)

text \<open>
  C8, amended: the label is the first element of what \<open>predict\<close> returns, whatever
  integer it is. With the classifier held in the cache, a first run and a second run of
  the process on the same feature row (whatever the file has become) call \<open>predict\<close>
  on that row and render the card of that same label.
\<close>

theorem classify_repeatable:
  assumes "cache p = None" and "truthy m" and "button w"
    and "predict m (input_data w) = Inr (l # ls)"
  shows "classify m (input_data w) = Inr l \<and>
         filter is_result_card (fst (fst (script p (Pickled m) w))) =
           [Show (if l = 1 then ResultCardDanger else ResultCardSafe)] \<and>
         filter is_result_card (fst (fst (script (snd (script p (Pickled m) w)) fs' w))) =
           [Show (if l = 1 then ResultCardDanger else ResultCardSafe)] \<and>
         filter is_call (fst (fst (script (snd (script p (Pickled m) w)) fs' w))) =
           [CallPredict (input_data w), CallPredictProba (input_data w)] \<and>
         fst (script (snd (script p (Pickled m) w)) fs' w) = fst (script p (Pickled m) w)"
proof -
  let ?p = "p\<lparr>cache := Some ([], Some m), opens := Suc (opens p)\<rparr>"
  have c: "classify m (input_data w) = Inr l"
    using assms(4) by (simp add: classify_def)
  have l1: "cached_load_model p (Pickled m) = (Inr ([], Some m), ?p)"
    using assms(1) by (simp add: cached_load_model_def load_model_def)
  have l2: "cached_load_model ?p fs' = (Inr ([], Some m), ?p)"
    by (simp add: cached_load_model_def)
  have i: "main_interface (Some m) w =
      (Show InputForm # [CallPredict (input_data w), CallPredictProba (input_data w), Show Rule] @
       map Show (render_result l (confidence m (input_data w))), None)"
    using assms(2,3) by (simp add: main_interface_def prediction_section_Inr [OF c])
  have s1: "script p (Pickled m) w =
      ((Show Css # [Show Sidebar, Show MainHeader, Show SubHeader] @
        Show InputForm # [CallPredict (input_data w), CallPredictProba (input_data w), Show Rule] @
        map Show (render_result l (confidence m (input_data w))), None), ?p)"
    by (simp add: script_def l1 i)
  have s2: "script ?p fs' w =
      ((Show Css # [Show Sidebar, Show MainHeader, Show SubHeader] @
        Show InputForm # [CallPredict (input_data w), CallPredictProba (input_data w), Show Rule] @
        map Show (render_result l (confidence m (input_data w))), None), ?p)"
    by (simp add: script_def l2 i)
  show ?thesis
    by (simp add: c s1 s2 filter_card_render filter_call_Show)
qed

theorem classify_repeatable_witness:
  "cache fresh_process = None \<and> truthy label_two_classifier \<and> button scenario_B_widgets \<and>
   predict label_two_classifier (input_data scenario_B_widgets) = Inr [2] \<and>
   classify label_two_classifier (input_data scenario_B_widgets) = Inr 2 \<and>
   filter is_result_card
     (fst (fst (script fresh_process (Pickled label_two_classifier) scenario_B_widgets))) =
     [Show ResultCardSafe] \<and>
   filter is_result_card
     (fst (fst (script
        (snd (script fresh_process (Pickled label_two_classifier) scenario_B_widgets))
        Absent scenario_B_widgets))) =
     [Show ResultCardSafe]"
proof -
  have h1: "cache fresh_process = None" by (simp add: fresh_process_def)
  have h2: "truthy label_two_classifier" by (simp add: label_two_classifier_def)
  have h3: "button scenario_B_widgets" by (simp add: scenario_B_widgets_def)
  have h4: "predict label_two_classifier (input_data scenario_B_widgets) = Inr (2 # [])"
    by (simp add: label_two_classifier_def)
  from classify_repeatable [OF h1 h2 h3 h4, of Absent] h1 h2 h3 h4
  show ?thesis by simp
qed

end
